theory Spec2Isabelle
  imports Main
begin

section \<open>Data model (src/frontend/src/types/index.ts)\<close>

datatype UserRole = ADMIN | OWNER | MANAGER | STAFF | CUSTOMER

datatype StaffType =
  ST_OWNER | ST_MANAGER | HEAD_CHEF | CHEF | WAITER | CASHIER | HOST | BARTENDER
  | KITCHEN | CLEANER | DELIVERY

text \<open>
  The interface \<open>User\<close>. An optional field (\<open>f?: t\<close>) is an \<open>option\<close>; the two
  \<open>Record\<close> fields are partial maps from keys. The values of \<open>preferences\<close> have the
  TypeScript type \<open>any\<close>; no function of the store looks at them, they are kept as strings.
  The field \<open>id\<close> is named \<open>id_user\<close>, since \<open>id\<close> is the identity function of HOL.
\<close>

record User =
  id_user :: string
  email :: string
  first_name :: string
  last_name :: string
  full_name :: "string option"
  phone_number :: "string option"
  role :: UserRole
  staff_type :: "StaffType option"
  restaurant_id :: "string option"
  is_active :: bool
  is_verified :: bool
  last_login_at :: "string option"
  permissions :: "(string \<rightharpoonup> bool) option"
  preferences :: "(string \<rightharpoonup> string) option"
  created_at :: string
  updated_at :: "string option"

record AuthTokens =
  access_token :: string
  refresh_token :: string
  token_type :: string
  expires_in :: int

section \<open>Auth state and reducer (src/frontend/src/store/auth.tsx)\<close>

record AuthState =
  user :: "User option"
  tokens :: "AuthTokens option"
  isAuthenticated :: bool
  isLoading :: bool
  error :: "string option"

datatype AuthAction =
  SET_LOADING bool
  | SET_ERROR "string option"
  | LOGIN_SUCCESS User AuthTokens
  | LOGOUT
  | UPDATE_USER User
  | UPDATE_TOKENS AuthTokens
  | CLEAR_ERROR

definition initialState :: AuthState where
  "initialState =
     \<lparr>user = None, tokens = None, isAuthenticated = False, isLoading = True, error = None\<rparr>"

fun authReducer :: "AuthState \<Rightarrow> AuthAction \<Rightarrow> AuthState" where
  "authReducer state (SET_LOADING payload) = state\<lparr>isLoading := payload\<rparr>"
| "authReducer state (SET_ERROR payload) = state\<lparr>error := payload, isLoading := False\<rparr>"
| "authReducer state (LOGIN_SUCCESS u t) =
     state\<lparr>user := Some u, tokens := Some t, isAuthenticated := True, isLoading := False,
           error := None\<rparr>"
| "authReducer state LOGOUT =
     state\<lparr>user := None, tokens := None, isAuthenticated := False, isLoading := False,
           error := None\<rparr>"
| "authReducer state (UPDATE_USER payload) = state\<lparr>user := Some payload\<rparr>"
| "authReducer state (UPDATE_TOKENS payload) = state\<lparr>tokens := Some payload\<rparr>"
| "authReducer state CLEAR_ERROR = state\<lparr>error := None\<rparr>"

text \<open>
  The state after a sequence of dispatched actions, oldest first: React applies the
  reducer to the actions in the order of their dispatch.
\<close>

definition dispatched :: "AuthAction list \<Rightarrow> AuthState" where
  "dispatched acts = foldl authReducer initialState acts"

section \<open>Configuration (CONFIG.AUTH of the configuration module)\<close>

text \<open>
  \<open>AUTH_CONFIG\<close> is computed once from the process environment
  (\<open>process.env.X || default\<close>, the two durations through \<open>parseInt\<close>). The store only
  reads the resulting record, so the functions below take it as a parameter;
  \<open>AUTH_CONFIG_default\<close> is the record when no environment variable is set. The durations
  are milliseconds, modelled as natural numbers.
\<close>

record AuthConfig =
  TOKEN_STORAGE_KEY :: string
  REFRESH_TOKEN_KEY :: string
  SESSION_TIMEOUT :: nat
  AUTO_LOGOUT_WARNING :: nat

definition AUTH_CONFIG_default :: AuthConfig where
  "AUTH_CONFIG_default =
     \<lparr>TOKEN_STORAGE_KEY = ''restaurant_auth_token'',
      REFRESH_TOKEN_KEY = ''restaurant_refresh_token'',
      SESSION_TIMEOUT = 1800000,
      AUTO_LOGOUT_WARNING = 300000\<rparr>"

definition USER_DATA_KEY :: string where
  "USER_DATA_KEY = ''restaurant_user_data''"

section \<open>The browser: localStorage, console, exceptions\<close>

text \<open>
  Every storage helper of the store wraps its calls to \<open>localStorage\<close> in
  \<open>try { ... } catch (error) { console.error(...) }\<close>. To make the \<open>catch\<close> branches
  part of the model, a computation returns either a raised error or a value, together with
  the world it leaves behind (writes made before a \<open>throw\<close> stay).

  The world holds the React state of the provider and what the helpers touch in the
  browser:
  \<^item> \<open>hasWindow\<close>: \<open>typeof window !== 'undefined'\<close> (false when rendering on the server);
  \<^item> \<open>items\<close>: the content of \<open>localStorage\<close>;
  \<^item> \<open>storageDenied\<close>: the browser refuses access to \<open>localStorage\<close>; then every
    \<open>getItem\<close>, \<open>setItem\<close> and \<open>removeItem\<close> raises \<open>SecurityError\<close>;
  \<^item> \<open>quotaExceeded k v\<close>: \<open>setItem(k, v)\<close> raises \<open>QuotaExceededError\<close>;
  \<^item> \<open>console\<close>: what was logged, oldest first.
\<close>

datatype js_error = SecurityError | QuotaExceededError | SyntaxError

datatype console_entry = ConsoleError string js_error | ConsoleWarn string

record World =
  state :: AuthState
  hasWindow :: bool
  storageDenied :: bool
  quotaExceeded :: "string \<Rightarrow> string \<Rightarrow> bool"
  items :: "string \<rightharpoonup> string"
  console :: "console_entry list"

type_synonym 'a js = "World \<Rightarrow> (js_error + 'a) \<times> World"

definition js_return :: "'a \<Rightarrow> 'a js" where
  "js_return v w = (Inr v, w)"

definition js_bind :: "'a js \<Rightarrow> ('a \<Rightarrow> 'b js) \<Rightarrow> 'b js" where
  "js_bind m f w = (case m w of (Inl e, w') \<Rightarrow> (Inl e, w') | (Inr v, w') \<Rightarrow> f v w')"

definition try_catch :: "'a js \<Rightarrow> (js_error \<Rightarrow> 'a js) \<Rightarrow> 'a js" where
  "try_catch body handler w =
     (case body w of (Inl e, w') \<Rightarrow> handler e w' | (Inr v, w') \<Rightarrow> (Inr v, w'))"

definition getItem :: "string \<Rightarrow> string option js" where
  "getItem k w =
     (if storageDenied w then (Inl SecurityError, w) else (Inr (items w k), w))"

definition setItem :: "string \<Rightarrow> string \<Rightarrow> unit js" where
  "setItem k v w =
     (if storageDenied w then (Inl SecurityError, w)
      else if quotaExceeded w k v then (Inl QuotaExceededError, w)
      else (Inr (), w\<lparr>items := (items w)(k \<mapsto> v)\<rparr>))"

definition removeItem :: "string \<Rightarrow> unit js" where
  "removeItem k w =
     (if storageDenied w then (Inl SecurityError, w)
      else (Inr (), w\<lparr>items := (items w)(k := None)\<rparr>))"

definition console_error :: "string \<Rightarrow> js_error \<Rightarrow> unit js" where
  "console_error msg e w = (Inr (), w\<lparr>console := console w @ [ConsoleError msg e]\<rparr>)"

definition dispatch :: "AuthAction \<Rightarrow> unit js" where
  "dispatch a w = (Inr (), w\<lparr>state := authReducer (state w) a\<rparr>)"

text \<open>
  \<open>JSON.stringify\<close> and \<open>JSON.parse\<close> on user records are taken as parameters. A parse
  raises \<open>SyntaxError\<close> on malformed text; it returns \<open>None\<close> for a value that JavaScript
  treats as false (\<open>null\<close>, \<open>false\<close>, \<open>0\<close>, the empty string), which is all the store
  ever asks of such a value, and \<open>Some u\<close> for anything else, which the store uses as a
  \<open>User\<close> without a check.
\<close>

record JSON =
  stringify :: "User \<Rightarrow> string"
  parse :: "string \<Rightarrow> js_error + User option"

section \<open>Storage helpers\<close>

text \<open>\<open>accessToken && refreshToken\<close>: a string is true when it is not empty, \<open>null\<close> is false.\<close>

definition truthy :: "string option \<Rightarrow> bool" where
  "truthy v = (case v of None \<Rightarrow> False | Some s \<Rightarrow> s \<noteq> [])"

definition getStoredTokens :: "AuthConfig \<Rightarrow> AuthTokens option js" where
  "getStoredTokens cfg w =
     (if \<not> hasWindow w then js_return None w
      else try_catch
        (js_bind (getItem (TOKEN_STORAGE_KEY cfg)) (\<lambda>accessToken.
         js_bind (getItem (REFRESH_TOKEN_KEY cfg)) (\<lambda>refreshToken.
           case (accessToken, refreshToken) of
             (Some a, Some r) \<Rightarrow>
               if truthy accessToken \<and> truthy refreshToken
               then js_return (Some \<lparr>access_token = a, refresh_token = r,
                                      token_type = ''bearer'', expires_in = 0\<rparr>)
               else js_return None
           | _ \<Rightarrow> js_return None)))
        (\<lambda>error. js_bind (console_error ''Error reading tokens from storage:'' error)
           (\<lambda>_. js_return None)) w)"

definition storeTokens :: "AuthConfig \<Rightarrow> AuthTokens \<Rightarrow> unit js" where
  "storeTokens cfg toks w =
     (if \<not> hasWindow w then js_return () w
      else try_catch
        (js_bind (setItem (TOKEN_STORAGE_KEY cfg) (access_token toks)) (\<lambda>_.
         setItem (REFRESH_TOKEN_KEY cfg) (refresh_token toks)))
        (\<lambda>error. console_error ''Error storing tokens:'' error) w)"

definition clearStoredTokens :: "AuthConfig \<Rightarrow> unit js" where
  "clearStoredTokens cfg w =
     (if \<not> hasWindow w then js_return () w
      else try_catch
        (js_bind (removeItem (TOKEN_STORAGE_KEY cfg)) (\<lambda>_.
         removeItem (REFRESH_TOKEN_KEY cfg)))
        (\<lambda>error. console_error ''Error clearing tokens:'' error) w)"

definition getStoredUser :: "JSON \<Rightarrow> User option js" where
  "getStoredUser json w =
     (if \<not> hasWindow w then js_return None w
      else try_catch
        (js_bind (getItem USER_DATA_KEY) (\<lambda>userData.
           case userData of
             None \<Rightarrow> js_return None
           | Some s \<Rightarrow>
               if truthy userData
               then (\<lambda>w'. case parse json s of Inl e \<Rightarrow> (Inl e, w') | Inr v \<Rightarrow> (Inr v, w'))
               else js_return None))
        (\<lambda>error. js_bind (console_error ''Error reading user data from storage:'' error)
           (\<lambda>_. js_return None)) w)"

definition storeUser :: "JSON \<Rightarrow> User \<Rightarrow> unit js" where
  "storeUser json u w =
     (if \<not> hasWindow w then js_return () w
      else try_catch
        (setItem USER_DATA_KEY (stringify json u))
        (\<lambda>error. console_error ''Error storing user data:'' error) w)"

definition clearStoredUser :: "unit js" where
  "clearStoredUser w =
     (if \<not> hasWindow w then js_return () w
      else try_catch
        (removeItem USER_DATA_KEY)
        (\<lambda>error. console_error ''Error clearing user data:'' error) w)"

section \<open>The provider: initialization and convenience methods\<close>

definition initializeAuth :: "AuthConfig \<Rightarrow> JSON \<Rightarrow> unit js" where
  "initializeAuth cfg json =
     js_bind (dispatch (SET_LOADING True)) (\<lambda>_.
     try_catch
       (js_bind (getStoredTokens cfg) (\<lambda>storedTokens.
        js_bind (getStoredUser json) (\<lambda>storedUser.
          case (storedTokens, storedUser) of
            (Some t, Some u) \<Rightarrow> dispatch (LOGIN_SUCCESS u t)
          | _ \<Rightarrow> dispatch (SET_LOADING False))))
       (\<lambda>error. js_bind (console_error ''Error initializing auth:'' error)
          (\<lambda>_. dispatch (SET_LOADING False))))"

definition login :: "AuthConfig \<Rightarrow> JSON \<Rightarrow> User \<Rightarrow> AuthTokens \<Rightarrow> unit js" where
  "login cfg json u t =
     js_bind (dispatch (LOGIN_SUCCESS u t)) (\<lambda>_.
     js_bind (storeUser json u) (\<lambda>_.
     storeTokens cfg t))"

definition logout :: "AuthConfig \<Rightarrow> unit js" where
  "logout cfg =
     js_bind (dispatch LOGOUT) (\<lambda>_.
     js_bind (clearStoredTokens cfg) (\<lambda>_.
     clearStoredUser))"



definition setLoading :: "bool \<Rightarrow> unit js" where
  "setLoading loading = dispatch (SET_LOADING loading)"

definition setError :: "string option \<Rightarrow> unit js" where
  "setError e = dispatch (SET_ERROR e)"


definition isOwnerOrManager :: "AuthState \<Rightarrow> bool" where
  "isOwnerOrManager st =
     (case user st of None \<Rightarrow> False | Some u \<Rightarrow> role u = OWNER \<or> role u = MANAGER)"

definition hasPermission :: "AuthState \<Rightarrow> string \<Rightarrow> bool" where
  "hasPermission st permission =
     (case user st of
        None \<Rightarrow> False
      | Some u \<Rightarrow>
          if role u = OWNER \<or> role u = ADMIN then True
          else (case permissions u of
                  None \<Rightarrow> False
                | Some m \<Rightarrow> m permission = Some True))"

section \<open>Timers and the auto-logout effect\<close>





definition timerDelay :: "nat \<Rightarrow> nat" where
  "timerDelay delay = (if delay < 2 ^ 31 then delay else 0)"























section \<open>Concrete inputs\<close>

text \<open>
  A staff user, a token pair as a backend would issue it, a toy serialisation of users (it
  knows one record), the world of a browser at mount with an empty storage, and the same
  world holding a persisted session.
\<close>

definition exampleUser :: User where
  "exampleUser =
     \<lparr>id_user = ''u1'', email = ''chef@example.com'', first_name = ''Ada'', last_name = ''Lee'',
      full_name = None, phone_number = None, role = STAFF, staff_type = Some CHEF,
      restaurant_id = Some ''r1'', is_active = True, is_verified = True, last_login_at = None,
      permissions = Some [''menu.edit'' \<mapsto> True, ''orders.void'' \<mapsto> False],
      preferences = None, created_at = ''2024-01-01'', updated_at = None\<rparr>"

definition exampleTokens :: AuthTokens where
  "exampleTokens =
     \<lparr>access_token = ''acc'', refresh_token = ''ref'', token_type = ''Bearer'',
      expires_in = 3600\<rparr>"

definition exampleJSON :: JSON where
  "exampleJSON =
     \<lparr>stringify = (\<lambda>u. ''user:'' @ id_user u),
      parse = (\<lambda>s. if s = ''user:u1'' then Inr (Some exampleUser)
                    else if s = ''null'' then Inr None else Inl SyntaxError)\<rparr>"

definition mountWorld :: World where
  "mountWorld =
     \<lparr>state = initialState, hasWindow = True, storageDenied = False,
      quotaExceeded = (\<lambda>k v. False), items = Map.empty, console = []\<rparr>"

definition sessionWorld :: World where
  "sessionWorld =
     mountWorld\<lparr>items := [''restaurant_user_data'' \<mapsto> ''user:u1'',
                          ''restaurant_auth_token'' \<mapsto> ''acc'',
                          ''restaurant_refresh_token'' \<mapsto> ''ref'']\<rparr>"

text \<open>
  Two storages that hold all three keys and still only one of user record and token pair:
  one with an empty refresh token, one with a user entry that \<open>JSON.parse\<close> rejects.
\<close>

definition emptyRefreshWorld :: World where
  "emptyRefreshWorld =
     sessionWorld\<lparr>items := (items sessionWorld)(''restaurant_refresh_token'' \<mapsto> '''')\<rparr>"

definition brokenUserWorld :: World where
  "brokenUserWorld =
     sessionWorld\<lparr>items := (items sessionWorld)(''restaurant_user_data'' \<mapsto> ''{broken'')\<rparr>"



section \<open>Predicates used in the statements\<close>

text \<open>
  \<open>updatesWhenAuthenticated s acts\<close>: along the run of \<open>acts\<close> from \<open>s\<close>, every
  \<open>UPDATE_USER\<close> and \<open>UPDATE_TOKENS\<close> is dispatched in a state with
  \<open>isAuthenticated\<close> true.
\<close>

fun updatesWhenAuthenticated :: "AuthState \<Rightarrow> AuthAction list \<Rightarrow> bool" where
  "updatesWhenAuthenticated s [] = True"
| "updatesWhenAuthenticated s (UPDATE_USER u # acts) =
     (isAuthenticated s \<and> updatesWhenAuthenticated (authReducer s (UPDATE_USER u)) acts)"
| "updatesWhenAuthenticated s (UPDATE_TOKENS t # acts) =
     (isAuthenticated s \<and> updatesWhenAuthenticated (authReducer s (UPDATE_TOKENS t)) acts)"
| "updatesWhenAuthenticated s (a # acts) = updatesWhenAuthenticated (authReducer s a) acts"

text \<open>
  When a write of \<open>login\<close> raises: the user record is written by one \<open>setItem\<close>, the
  token pair by two.
\<close>

definition userWriteFails :: "JSON \<Rightarrow> User \<Rightarrow> World \<Rightarrow> bool" where
  "userWriteFails json u w =
     (hasWindow w \<and> (storageDenied w \<or> quotaExceeded w USER_DATA_KEY (stringify json u)))"

definition tokenWriteFails :: "AuthConfig \<Rightarrow> AuthTokens \<Rightarrow> World \<Rightarrow> bool" where
  "tokenWriteFails cfg t w =
     (hasWindow w \<and> (storageDenied w \<or> quotaExceeded w (TOKEN_STORAGE_KEY cfg) (access_token t)
        \<or> quotaExceeded w (REFRESH_TOKEN_KEY cfg) (refresh_token t)))"

text \<open>
  What the rehydration finds in storage, as its code reads it: the token pair is present
  when both token keys hold a non-empty string, the user record when the user key holds a
  non-empty string that \<open>JSON.parse\<close> reads as a user. Neither is present without a
  storage to read.
\<close>

definition storedTokensPresent :: "AuthConfig \<Rightarrow> World \<Rightarrow> bool" where
  "storedTokensPresent cfg w =
     (hasWindow w \<and> \<not> storageDenied w
      \<and> truthy (items w (TOKEN_STORAGE_KEY cfg)) \<and> truthy (items w (REFRESH_TOKEN_KEY cfg)))"

definition storedUserPresent :: "JSON \<Rightarrow> World \<Rightarrow> bool" where
  "storedUserPresent json w =
     (hasWindow w \<and> \<not> storageDenied w
      \<and> (case items w USER_DATA_KEY of
            None \<Rightarrow> False
          | Some s \<Rightarrow>
              s \<noteq> [] \<and> (case parse json s of Inr (Some u) \<Rightarrow> True | _ \<Rightarrow> False)))"


section \<open>What each helper returns\<close>

lemmas js_defs = js_return_def js_bind_def try_catch_def getItem_def setItem_def removeItem_def
  console_error_def dispatch_def

lemma getStoredTokens_result:
  "getStoredTokens cfg w =
     (if \<not> hasWindow w then (Inr None, w)
      else if storageDenied w
      then (Inr None, w\<lparr>console := console w @
              [ConsoleError ''Error reading tokens from storage:'' SecurityError]\<rparr>)
      else (case (items w (TOKEN_STORAGE_KEY cfg), items w (REFRESH_TOKEN_KEY cfg)) of
              (Some a, Some r) \<Rightarrow>
                if a \<noteq> [] \<and> r \<noteq> []
                then (Inr (Some \<lparr>access_token = a, refresh_token = r,
                                  token_type = ''bearer'', expires_in = 0\<rparr>), w)
                else (Inr None, w)
            | _ \<Rightarrow> (Inr None, w)))"
  by (simp add: getStoredTokens_def js_defs truthy_def split: option.splits)

lemma getStoredUser_result:
  "getStoredUser json w =
     (if \<not> hasWindow w then (Inr None, w)
      else if storageDenied w
      then (Inr None, w\<lparr>console := console w @
              [ConsoleError ''Error reading user data from storage:'' SecurityError]\<rparr>)
      else (case items w USER_DATA_KEY of
              None \<Rightarrow> (Inr None, w)
            | Some s \<Rightarrow>
                if s = [] then (Inr None, w)
                else (case parse json s of
                        Inl e \<Rightarrow> (Inr None, w\<lparr>console := console w @
                                   [ConsoleError ''Error reading user data from storage:'' e]\<rparr>)
                      | Inr v \<Rightarrow> (Inr v, w))))"
  by (simp add: getStoredUser_def js_defs truthy_def split: option.splits sum.splits)

lemma storeUser_result:
  "storeUser json u w =
     (Inr (), if \<not> hasWindow w then w
      else if storageDenied w
      then w\<lparr>console := console w @ [ConsoleError ''Error storing user data:'' SecurityError]\<rparr>
      else if quotaExceeded w USER_DATA_KEY (stringify json u)
      then w\<lparr>console := console w @
               [ConsoleError ''Error storing user data:'' QuotaExceededError]\<rparr>
      else w\<lparr>items := (items w)(USER_DATA_KEY \<mapsto> stringify json u)\<rparr>)"
  by (simp add: storeUser_def js_defs)

lemma storeTokens_result:
  "storeTokens cfg t w =
     (Inr (), if \<not> hasWindow w then w
      else if storageDenied w
      then w\<lparr>console := console w @ [ConsoleError ''Error storing tokens:'' SecurityError]\<rparr>
      else if quotaExceeded w (TOKEN_STORAGE_KEY cfg) (access_token t)
      then w\<lparr>console := console w @ [ConsoleError ''Error storing tokens:'' QuotaExceededError]\<rparr>
      else if quotaExceeded w (REFRESH_TOKEN_KEY cfg) (refresh_token t)
      then w\<lparr>items := (items w)(TOKEN_STORAGE_KEY cfg \<mapsto> access_token t),
             console := console w @ [ConsoleError ''Error storing tokens:'' QuotaExceededError]\<rparr>
      else w\<lparr>items := (items w)(TOKEN_STORAGE_KEY cfg \<mapsto> access_token t,
                                REFRESH_TOKEN_KEY cfg \<mapsto> refresh_token t)\<rparr>)"
  by (simp add: storeTokens_def js_defs)

lemma storeUser_frame:
  "state (snd (storeUser json u w)) = state w"
  "hasWindow (snd (storeUser json u w)) = hasWindow w"
  "storageDenied (snd (storeUser json u w)) = storageDenied w"
  "quotaExceeded (snd (storeUser json u w)) = quotaExceeded w"
  by (simp_all add: storeUser_result)

lemma storeTokens_frame:
  "state (snd (storeTokens cfg t w)) = state w"
  "hasWindow (snd (storeTokens cfg t w)) = hasWindow w"
  "storageDenied (snd (storeTokens cfg t w)) = storageDenied w"
  "quotaExceeded (snd (storeTokens cfg t w)) = quotaExceeded w"
  by (simp_all add: storeTokens_result)

lemma logout_result:
  "logout cfg w =
     (Inr (),
      if \<not> hasWindow w then w\<lparr>state := authReducer (state w) LOGOUT\<rparr>
      else if storageDenied w
      then w\<lparr>state := authReducer (state w) LOGOUT,
             console := console w @
               [ConsoleError ''Error clearing tokens:'' SecurityError,
                ConsoleError ''Error clearing user data:'' SecurityError]\<rparr>
      else w\<lparr>state := authReducer (state w) LOGOUT,
             items := (items w)(TOKEN_STORAGE_KEY cfg := None, REFRESH_TOKEN_KEY cfg := None,
                                USER_DATA_KEY := None)\<rparr>)"
  by (simp add: logout_def clearStoredTokens_def clearStoredUser_def js_defs)

lemma login_unfold:
  "login cfg json u t w =
     storeTokens cfg t
       (snd (storeUser json u (w\<lparr>state := authReducer (state w) (LOGIN_SUCCESS u t)\<rparr>)))"
  by (simp add: login_def js_bind_def dispatch_def storeUser_result)

lemma login_console:
  "console (snd (login cfg json u t w)) =
     console w
     @ (if userWriteFails json u w
        then [ConsoleError ''Error storing user data:''
                (if storageDenied w then SecurityError else QuotaExceededError)] else [])
     @ (if tokenWriteFails cfg t w
        then [ConsoleError ''Error storing tokens:''
                (if storageDenied w then SecurityError else QuotaExceededError)] else [])"
  by (simp add: login_unfold storeTokens_result storeUser_result userWriteFails_def
      tokenWriteFails_def)

lemma login_items:
  assumes "hasWindow w" "\<not> userWriteFails json u w" "\<not> tokenWriteFails cfg t w"
  shows "items (snd (login cfg json u t w)) =
     (items w)(USER_DATA_KEY \<mapsto> stringify json u, TOKEN_STORAGE_KEY cfg \<mapsto> access_token t,
               REFRESH_TOKEN_KEY cfg \<mapsto> refresh_token t)"
  using assms
  by (simp add: login_unfold storeTokens_result storeUser_result userWriteFails_def
      tokenWriteFails_def)

lemma rehydrated_tokens_shape:
  assumes "getStoredTokens cfg w = (Inr (Some t), w')"
  shows "token_type t = ''bearer'' \<and> expires_in t = 0
       \<and> items w (TOKEN_STORAGE_KEY cfg) = Some (access_token t)
       \<and> items w (REFRESH_TOKEN_KEY cfg) = Some (refresh_token t)"
proof (cases "hasWindow w \<and> \<not> storageDenied w")
  case False
  with assms show ?thesis by (auto simp add: getStoredTokens_result split: if_splits)
next
  case True
  with assms obtain a r where "items w (TOKEN_STORAGE_KEY cfg) = Some a" "items w (REFRESH_TOKEN_KEY cfg) = Some r"
    by (cases "items w (TOKEN_STORAGE_KEY cfg)"; cases "items w (REFRESH_TOKEN_KEY cfg)") (simp_all add: getStoredTokens_result)
  with assms True show ?thesis by (auto simp add: getStoredTokens_result split: if_splits)
qed

lemma storeTokens_roundtrip:
  assumes "hasWindow w" "\<not> tokenWriteFails cfg t0 w"
        "TOKEN_STORAGE_KEY cfg \<noteq> REFRESH_TOKEN_KEY cfg"
        "access_token t0 \<noteq> []" "refresh_token t0 \<noteq> []"
  shows "fst (getStoredTokens cfg (snd (storeTokens cfg t0 w))) =
         Inr (Some (t0\<lparr>token_type := ''bearer'', expires_in := 0\<rparr>))"
  using assms
  by (simp add: getStoredTokens_result storeTokens_frame) (simp add: storeTokens_result tokenWriteFails_def)

lemma initializeAuth_authenticated:
  assumes "\<not> isAuthenticated (state w)"
  shows "isAuthenticated (state (snd (initializeAuth cfg json w))) \<longleftrightarrow>
         storedUserPresent json w \<and> storedTokensPresent cfg w"
  using assms
  by (auto simp add: initializeAuth_def js_bind_def try_catch_def dispatch_def
      getStoredTokens_result getStoredUser_result storedUserPresent_def storedTokensPresent_def
      truthy_def split: option.splits sum.splits)

section \<open>The reducer's invariant\<close>

lemma authenticated_has_session:
  assumes "isAuthenticated s \<longrightarrow> user s \<noteq> None \<and> tokens s \<noteq> None"
  shows "isAuthenticated (foldl authReducer s acts) \<longrightarrow>
         user (foldl authReducer s acts) \<noteq> None \<and> tokens (foldl authReducer s acts) \<noteq> None"
  using assms
proof (induction acts arbitrary: s)
  case Nil
  then show ?case by simp
next
  case (Cons a acts)
  have "isAuthenticated (authReducer s a) \<longrightarrow>
        user (authReducer s a) \<noteq> None \<and> tokens (authReducer s a) \<noteq> None"
    using Cons.prems by (cases a) simp_all
  from Cons.IH [OF this] show ?case by simp
qed

lemma session_iff_authenticated:
  assumes "isAuthenticated s \<longleftrightarrow> user s \<noteq> None \<and> tokens s \<noteq> None"
    and "updatesWhenAuthenticated s acts"
  shows "isAuthenticated (foldl authReducer s acts) \<longleftrightarrow>
         user (foldl authReducer s acts) \<noteq> None \<and> tokens (foldl authReducer s acts) \<noteq> None"
  using assms
proof (induction s acts rule: updatesWhenAuthenticated.induct)
  case (1 s)
  then show ?case by simp
qed simp_all

section \<open>Claims about the reducer\<close>

text \<open>
  C1, as stated: in every state reached from \<open>initialState\<close> by dispatched actions,
  \<open>isAuthenticated\<close> is true if and only if \<open>user\<close> and \<open>tokens\<close> are both present.
  This fails: \<open>UPDATE_USER\<close> followed by \<open>UPDATE_TOKENS\<close> on the initial state fills both
  fields and leaves \<open>isAuthenticated\<close> false, since the two update actions do not touch
  the flag.
\<close>

theorem C1_iff_counterexample:
  "\<not> (isAuthenticated (dispatched [UPDATE_USER exampleUser, UPDATE_TOKENS exampleTokens])
        \<longleftrightarrow> user (dispatched [UPDATE_USER exampleUser, UPDATE_TOKENS exampleTokens]) \<noteq> None
            \<and> tokens (dispatched [UPDATE_USER exampleUser, UPDATE_TOKENS exampleTokens]) \<noteq> None)"
  by (simp add: dispatched_def initialState_def)

text \<open>
  C1, amended: in every state reached from \<open>initialState\<close> by dispatched actions,
  \<open>isAuthenticated\<close> true implies that \<open>user\<close> and \<open>tokens\<close> are both present; the
  converse holds as well when every \<open>UPDATE_USER\<close> and \<open>UPDATE_TOKENS\<close> of the sequence
  was dispatched in an authenticated state.
\<close>

theorem C1_authenticated_implies_session:
  "(isAuthenticated (dispatched acts) \<longrightarrow>
      user (dispatched acts) \<noteq> None \<and> tokens (dispatched acts) \<noteq> None)
   \<and> (updatesWhenAuthenticated initialState acts \<longrightarrow>
      (isAuthenticated (dispatched acts) \<longleftrightarrow>
         user (dispatched acts) \<noteq> None \<and> tokens (dispatched acts) \<noteq> None))"
proof -
  have init: "isAuthenticated initialState \<longleftrightarrow>
              user initialState \<noteq> None \<and> tokens initialState \<noteq> None"
    by (simp add: initialState_def)
  from init have "isAuthenticated initialState \<longrightarrow>
              user initialState \<noteq> None \<and> tokens initialState \<noteq> None"
    by simp
  from authenticated_has_session [OF this] session_iff_authenticated [OF init]
  show ?thesis unfolding dispatched_def by blast
qed

theorem C1_authenticated_implies_session_witness:
  "isAuthenticated (dispatched [SET_LOADING True, LOGIN_SUCCESS exampleUser exampleTokens,
                                UPDATE_USER exampleUser, SET_ERROR (Some ''offline'')])
   \<and> updatesWhenAuthenticated initialState
        [SET_LOADING True, LOGIN_SUCCESS exampleUser exampleTokens,
         UPDATE_USER exampleUser, SET_ERROR (Some ''offline'')]
   \<and> user (dispatched [SET_LOADING True, LOGIN_SUCCESS exampleUser exampleTokens,
                        UPDATE_USER exampleUser, SET_ERROR (Some ''offline'')]) \<noteq> None
   \<and> tokens (dispatched [SET_LOADING True, LOGIN_SUCCESS exampleUser exampleTokens,
                          UPDATE_USER exampleUser, SET_ERROR (Some ''offline'')]) \<noteq> None"
  using C1_authenticated_implies_session
    [of "[SET_LOADING True, LOGIN_SUCCESS exampleUser exampleTokens,
          UPDATE_USER exampleUser, SET_ERROR (Some ''offline'')]"]
  by (simp add: dispatched_def initialState_def)

text \<open>
  C2, as stated: \<open>setError(e)\<close> changes only the \<open>error\<close> field. This fails: the
  \<open>SET_ERROR\<close> case of the reducer also sets \<open>isLoading\<close> to false, so on the state at
  mount (\<open>isLoading\<close> true) \<open>setError(null)\<close> changes \<open>isLoading\<close>.
\<close>

theorem C2_setError_counterexample:
  "isLoading (state (snd (setError None mountWorld))) \<noteq> isLoading (state mountWorld)"
  by (simp add: setError_def dispatch_def mountWorld_def initialState_def)

text \<open>
  C2, amended: \<open>setLoading(b)\<close> changes only \<open>isLoading\<close>, to \<open>b\<close>; \<open>setError(e)\<close> sets
  \<open>error\<close> to \<open>e\<close> and \<open>isLoading\<close> to false. Both leave \<open>user\<close>, \<open>tokens\<close> and
  \<open>isAuthenticated\<close> as they are, raise nothing, write nothing to storage and log nothing.
\<close>

theorem C2_status_flags_frame:
  "setLoading b w = (Inr (), w\<lparr>state := (state w)\<lparr>isLoading := b\<rparr>\<rparr>)
   \<and> setError e w = (Inr (), w\<lparr>state := (state w)\<lparr>error := e, isLoading := False\<rparr>\<rparr>)"
  by (simp add: setLoading_def setError_def dispatch_def)

section \<open>Claims about logout\<close>

text \<open>
  C3: \<open>logout\<close> is idempotent. For every world, a first and a second \<open>logout\<close> raise
  nothing, and the second leaves the React state and the storage content exactly as the
  first did. After \<open>logout\<close> the state has \<open>user\<close> and \<open>tokens\<close> null,
  \<open>isAuthenticated\<close> and \<open>isLoading\<close> false and \<open>error\<close> null, whatever it was before,
  and where there is a storage to write to, the two token keys and the user key are removed
  from it and nothing else changes there.
\<close>

theorem C3_logout_idempotent:
  "fst (logout cfg w) = Inr ()
   \<and> fst (logout cfg (snd (logout cfg w))) = Inr ()
   \<and> state (snd (logout cfg (snd (logout cfg w)))) = state (snd (logout cfg w))
   \<and> items (snd (logout cfg (snd (logout cfg w)))) = items (snd (logout cfg w))
   \<and> state (snd (logout cfg w)) =
       \<lparr>user = None, tokens = None, isAuthenticated = False, isLoading = False, error = None\<rparr>
   \<and> (hasWindow w \<and> \<not> storageDenied w \<longrightarrow>
        items (snd (logout cfg w)) =
          (items w)(TOKEN_STORAGE_KEY cfg := None, REFRESH_TOKEN_KEY cfg := None,
                    USER_DATA_KEY := None))"
  by (simp add: logout_result)

theorem C3_logout_idempotent_witness:
  "hasWindow sessionWorld \<and> \<not> storageDenied sessionWorld
   \<and> items sessionWorld ''restaurant_auth_token'' = Some ''acc''
   \<and> items (snd (logout AUTH_CONFIG_default sessionWorld)) ''restaurant_auth_token'' = None
   \<and> items (snd (logout AUTH_CONFIG_default (snd (logout AUTH_CONFIG_default sessionWorld))))
        ''restaurant_auth_token'' = None"
  using C3_logout_idempotent [of AUTH_CONFIG_default sessionWorld]
  by (simp add: sessionWorld_def mountWorld_def AUTH_CONFIG_default_def USER_DATA_KEY_def)

text \<open>
  C6: for every world, after \<open>logout\<close> an immediate \<open>getStoredTokens\<close> returns null and
  an immediate \<open>getStoredUser\<close> returns null; where there is a storage, the access-token
  key, the refresh-token key and the user-record key are absent from it.
\<close>

theorem C6_storage_empty_after_logout:
  "fst (getStoredTokens cfg (snd (logout cfg w))) = Inr None
   \<and> fst (getStoredUser json (snd (logout cfg w))) = Inr None
   \<and> (hasWindow w \<and> \<not> storageDenied w \<longrightarrow>
        items (snd (logout cfg w)) (TOKEN_STORAGE_KEY cfg) = None
        \<and> items (snd (logout cfg w)) (REFRESH_TOKEN_KEY cfg) = None
        \<and> items (snd (logout cfg w)) USER_DATA_KEY = None)"
  by (simp add: logout_result getStoredTokens_result getStoredUser_result)

theorem C6_storage_empty_after_logout_witness:
  "hasWindow sessionWorld \<and> \<not> storageDenied sessionWorld
   \<and> fst (getStoredTokens AUTH_CONFIG_default sessionWorld) =
       Inr (Some \<lparr>access_token = ''acc'', refresh_token = ''ref'', token_type = ''bearer'',
                  expires_in = 0\<rparr>)
   \<and> fst (getStoredTokens AUTH_CONFIG_default (snd (logout AUTH_CONFIG_default sessionWorld))) =
       Inr None
   \<and> fst (getStoredUser exampleJSON (snd (logout AUTH_CONFIG_default sessionWorld))) = Inr None
   \<and> items (snd (logout AUTH_CONFIG_default sessionWorld)) USER_DATA_KEY = None"
  using C6_storage_empty_after_logout [of AUTH_CONFIG_default sessionWorld exampleJSON]
  by (simp add: getStoredTokens_result sessionWorld_def mountWorld_def AUTH_CONFIG_default_def
      USER_DATA_KEY_def)

section \<open>Claims about rehydration\<close>

text \<open>
  C4: for every world whose storage holds both tokens (a non-empty string under the
  access-token key and under the refresh-token key) and a user record (a non-empty string
  under the user key that \<open>JSON.parse\<close> reads as a user), initialization raises nothing and
  ends in a state with \<open>isAuthenticated\<close> true and \<open>isLoading\<close> false, holding that user
  and those tokens. It is a function of the storage alone: nothing in it calls a backend,
  and it leaves storage and console as they were.
\<close>

theorem C4_rehydration_authenticates:
  assumes "hasWindow w" and "\<not> storageDenied w"
    and "items w (TOKEN_STORAGE_KEY cfg) = Some a" and "a \<noteq> []"
    and "items w (REFRESH_TOKEN_KEY cfg) = Some r" and "r \<noteq> []"
    and "items w USER_DATA_KEY = Some s" and "s \<noteq> []" and "parse json s = Inr (Some u)"
  shows "fst (initializeAuth cfg json w) = Inr ()
    \<and> isAuthenticated (state (snd (initializeAuth cfg json w)))
    \<and> \<not> isLoading (state (snd (initializeAuth cfg json w)))
    \<and> user (state (snd (initializeAuth cfg json w))) = Some u
    \<and> tokens (state (snd (initializeAuth cfg json w))) =
         Some \<lparr>access_token = a, refresh_token = r, token_type = ''bearer'', expires_in = 0\<rparr>
    \<and> items (snd (initializeAuth cfg json w)) = items w
    \<and> console (snd (initializeAuth cfg json w)) = console w"
  using assms
  by (simp add: initializeAuth_def js_bind_def try_catch_def dispatch_def
      getStoredTokens_result getStoredUser_result)

theorem C4_rehydration_authenticates_witness:
  "isAuthenticated (state (snd (initializeAuth AUTH_CONFIG_default exampleJSON sessionWorld)))
   \<and> \<not> isLoading (state (snd (initializeAuth AUTH_CONFIG_default exampleJSON sessionWorld)))
   \<and> user (state (snd (initializeAuth AUTH_CONFIG_default exampleJSON sessionWorld))) =
       Some exampleUser"
proof -
  have "hasWindow sessionWorld" "\<not> storageDenied sessionWorld"
    "items sessionWorld (TOKEN_STORAGE_KEY AUTH_CONFIG_default) = Some ''acc''"
    "items sessionWorld (REFRESH_TOKEN_KEY AUTH_CONFIG_default) = Some ''ref''"
    "items sessionWorld USER_DATA_KEY = Some ''user:u1''"
    "parse exampleJSON ''user:u1'' = Inr (Some exampleUser)"
    by (simp_all add: sessionWorld_def mountWorld_def AUTH_CONFIG_default_def USER_DATA_KEY_def
        exampleJSON_def)
  from C4_rehydration_authenticates [OF this(1,2,3) _ this(4) _ this(5) _ this(6)]
  show ?thesis by simp
qed

text \<open>
  C5: take any world at mount (not authenticated). If exactly one of the stored user record
  and the stored token pair is present, initialization ends in a state with
  \<open>isAuthenticated\<close> false. Present is what the code can read: a token pair with a key
  missing or empty is not present, nor is a user entry that is missing, empty or rejected
  by \<open>JSON.parse\<close>. More precisely, the state after initialization is authenticated
  exactly when both are present.
\<close>

theorem C5_partial_session_not_authenticated:
  assumes "\<not> isAuthenticated (state w)"
  shows "(storedUserPresent json w \<noteq> storedTokensPresent cfg w \<longrightarrow>
            \<not> isAuthenticated (state (snd (initializeAuth cfg json w))))
       \<and> (isAuthenticated (state (snd (initializeAuth cfg json w))) \<longleftrightarrow>
            storedUserPresent json w \<and> storedTokensPresent cfg w)"
  using initializeAuth_authenticated [OF assms, of cfg json] by blast

theorem C5_partial_session_not_authenticated_witness:
  "items emptyRefreshWorld (REFRESH_TOKEN_KEY AUTH_CONFIG_default) = Some ''''
   \<and> storedUserPresent exampleJSON emptyRefreshWorld
   \<and> \<not> storedTokensPresent AUTH_CONFIG_default emptyRefreshWorld
   \<and> \<not> isAuthenticated
        (state (snd (initializeAuth AUTH_CONFIG_default exampleJSON emptyRefreshWorld)))
   \<and> items brokenUserWorld USER_DATA_KEY = Some ''{broken''
   \<and> \<not> storedUserPresent exampleJSON brokenUserWorld
   \<and> storedTokensPresent AUTH_CONFIG_default brokenUserWorld
   \<and> \<not> isAuthenticated
        (state (snd (initializeAuth AUTH_CONFIG_default exampleJSON brokenUserWorld)))
   \<and> storedUserPresent exampleJSON
        (sessionWorld\<lparr>items := (items sessionWorld)(''restaurant_refresh_token'' := None)\<rparr>)
   \<and> \<not> storedTokensPresent AUTH_CONFIG_default
        (sessionWorld\<lparr>items := (items sessionWorld)(''restaurant_refresh_token'' := None)\<rparr>)
   \<and> \<not> isAuthenticated (state (snd (initializeAuth AUTH_CONFIG_default exampleJSON
         (sessionWorld\<lparr>items := (items sessionWorld)(''restaurant_refresh_token'' := None)\<rparr>))))
   \<and> storedUserPresent exampleJSON sessionWorld
   \<and> storedTokensPresent AUTH_CONFIG_default sessionWorld
   \<and> isAuthenticated (state (snd (initializeAuth AUTH_CONFIG_default exampleJSON sessionWorld)))"
proof -
  have na: "\<not> isAuthenticated (state emptyRefreshWorld)"
    "\<not> isAuthenticated (state brokenUserWorld)"
    "\<not> isAuthenticated (state
        (sessionWorld\<lparr>items := (items sessionWorld)(''restaurant_refresh_token'' := None)\<rparr>))"
    "\<not> isAuthenticated (state sessionWorld)"
    by (simp_all add: emptyRefreshWorld_def brokenUserWorld_def sessionWorld_def mountWorld_def
        initialState_def)
  from C5_partial_session_not_authenticated [OF na(1), of exampleJSON AUTH_CONFIG_default]
    C5_partial_session_not_authenticated [OF na(2), of exampleJSON AUTH_CONFIG_default]
    C5_partial_session_not_authenticated [OF na(3), of exampleJSON AUTH_CONFIG_default]
    C5_partial_session_not_authenticated [OF na(4), of exampleJSON AUTH_CONFIG_default]
  show ?thesis
    by (simp add: storedUserPresent_def storedTokensPresent_def truthy_def emptyRefreshWorld_def
        brokenUserWorld_def sessionWorld_def mountWorld_def AUTH_CONFIG_default_def
        USER_DATA_KEY_def exampleJSON_def)
qed

section \<open>Claims about login, permissions and the stored token record\<close>

text \<open>
  C8: for every user, token pair and world, \<open>login(user, tokens)\<close> raises nothing and
  leaves the state authenticated: \<open>user\<close> and \<open>tokens\<close> set to its arguments,
  \<open>isAuthenticated\<close> true, \<open>isLoading\<close> false, \<open>error\<close> null. Where there is a storage
  and no write fails, the user record and both token strings are in storage afterwards
  (under three different keys). Each failed write is caught and logged with
  \<open>console.error\<close>, once for the user record and once for the token pair, and the state
  is authenticated all the same.
\<close>

theorem C8_login_authenticates_and_persists:
  "fst (login cfg json u t w) = Inr ()
   \<and> state (snd (login cfg json u t w)) =
       \<lparr>user = Some u, tokens = Some t, isAuthenticated = True, isLoading = False, error = None\<rparr>
   \<and> (hasWindow w \<and> \<not> userWriteFails json u w \<and> \<not> tokenWriteFails cfg t w
        \<and> distinct [USER_DATA_KEY, TOKEN_STORAGE_KEY cfg, REFRESH_TOKEN_KEY cfg] \<longrightarrow>
        items (snd (login cfg json u t w)) USER_DATA_KEY = Some (stringify json u)
        \<and> items (snd (login cfg json u t w)) (TOKEN_STORAGE_KEY cfg) = Some (access_token t)
        \<and> items (snd (login cfg json u t w)) (REFRESH_TOKEN_KEY cfg) = Some (refresh_token t))
   \<and> console (snd (login cfg json u t w)) =
       console w
       @ (if userWriteFails json u w
          then [ConsoleError ''Error storing user data:''
                  (if storageDenied w then SecurityError else QuotaExceededError)] else [])
       @ (if tokenWriteFails cfg t w
          then [ConsoleError ''Error storing tokens:''
                  (if storageDenied w then SecurityError else QuotaExceededError)] else [])"
proof -
  have ok: "fst (login cfg json u t w) = Inr ()"
    by (simp add: login_unfold storeTokens_result)
  have st: "state (snd (login cfg json u t w)) =
       \<lparr>user = Some u, tokens = Some t, isAuthenticated = True, isLoading = False, error = None\<rparr>"
    by (simp add: login_unfold storeTokens_frame storeUser_frame)
  have it: "items (snd (login cfg json u t w)) USER_DATA_KEY = Some (stringify json u)
        \<and> items (snd (login cfg json u t w)) (TOKEN_STORAGE_KEY cfg) = Some (access_token t)
        \<and> items (snd (login cfg json u t w)) (REFRESH_TOKEN_KEY cfg) = Some (refresh_token t)"
    if "hasWindow w" "\<not> userWriteFails json u w" "\<not> tokenWriteFails cfg t w"
       "distinct [USER_DATA_KEY, TOKEN_STORAGE_KEY cfg, REFRESH_TOKEN_KEY cfg]"
    using that(4) by (simp add: login_items [OF that(1,2,3)])
  from ok st it login_console [of cfg json u t w] show ?thesis by blast
qed

theorem C8_login_authenticates_and_persists_witness:
  "hasWindow mountWorld \<and> \<not> userWriteFails exampleJSON exampleUser mountWorld
   \<and> \<not> tokenWriteFails AUTH_CONFIG_default exampleTokens mountWorld
   \<and> items (snd (login AUTH_CONFIG_default exampleJSON exampleUser exampleTokens mountWorld))
       ''restaurant_user_data'' = Some ''user:u1''
   \<and> items (snd (login AUTH_CONFIG_default exampleJSON exampleUser exampleTokens mountWorld))
       ''restaurant_auth_token'' = Some ''acc''
   \<and> items (snd (login AUTH_CONFIG_default exampleJSON exampleUser exampleTokens mountWorld))
       ''restaurant_refresh_token'' = Some ''ref''
   \<and> userWriteFails exampleJSON exampleUser (mountWorld\<lparr>quotaExceeded := (\<lambda>k v. True)\<rparr>)
   \<and> isAuthenticated (state (snd (login AUTH_CONFIG_default exampleJSON exampleUser exampleTokens
         (mountWorld\<lparr>quotaExceeded := (\<lambda>k v. True)\<rparr>))))
   \<and> console (snd (login AUTH_CONFIG_default exampleJSON exampleUser exampleTokens
         (mountWorld\<lparr>quotaExceeded := (\<lambda>k v. True)\<rparr>))) =
       [ConsoleError ''Error storing user data:'' QuotaExceededError,
        ConsoleError ''Error storing tokens:'' QuotaExceededError]"
  using C8_login_authenticates_and_persists
      [of AUTH_CONFIG_default exampleJSON exampleUser exampleTokens mountWorld]
    C8_login_authenticates_and_persists
      [of AUTH_CONFIG_default exampleJSON exampleUser exampleTokens
          "mountWorld\<lparr>quotaExceeded := (\<lambda>k v. True)\<rparr>"]
  by (simp add: userWriteFails_def tokenWriteFails_def mountWorld_def AUTH_CONFIG_default_def
      USER_DATA_KEY_def exampleJSON_def exampleUser_def exampleTokens_def)

text \<open>
  C9: \<open>hasPermission(p)\<close> is false when \<open>state.user\<close> is null; it is true for every
  \<open>p\<close> when the role of the user is \<open>OWNER\<close> or \<open>ADMIN\<close>, whatever the permission map;
  for every other role, \<open>MANAGER\<close> among them, it is true exactly when the permission map
  exists and maps \<open>p\<close> to true, so a key that the map lacks is denied.
\<close>

theorem C9_hasPermission:
  "(user st = None \<longrightarrow> \<not> hasPermission st p)
   \<and> (user st = Some u \<and> (role u = OWNER \<or> role u = ADMIN) \<longrightarrow> hasPermission st p)
   \<and> (user st = Some u \<and> role u \<noteq> OWNER \<and> role u \<noteq> ADMIN \<longrightarrow>
        hasPermission st p = (\<exists>m. permissions u = Some m \<and> m p = Some True))
   \<and> (user st = Some u \<and> role u \<noteq> OWNER \<and> role u \<noteq> ADMIN
        \<and> (\<forall>m. permissions u = Some m \<longrightarrow> m p = None) \<longrightarrow> \<not> hasPermission st p)"
  by (auto simp add: hasPermission_def split: option.splits)

theorem C9_hasPermission_witness:
  "user initialState = None \<and> \<not> hasPermission initialState ''menu.edit''
   \<and> hasPermission (initialState\<lparr>user := Some (exampleUser\<lparr>role := OWNER, permissions := None\<rparr>)\<rparr>)
        ''anything''
   \<and> hasPermission (initialState\<lparr>user := Some (exampleUser\<lparr>role := ADMIN, permissions := None\<rparr>)\<rparr>)
        ''anything''
   \<and> isOwnerOrManager
        (initialState\<lparr>user := Some (exampleUser\<lparr>role := MANAGER, permissions := None\<rparr>)\<rparr>)
   \<and> \<not> hasPermission (initialState\<lparr>user := Some (exampleUser\<lparr>role := MANAGER, permissions := None\<rparr>)\<rparr>)
        ''anything''
   \<and> hasPermission (initialState\<lparr>user := Some exampleUser\<rparr>) ''menu.edit''
   \<and> \<not> hasPermission (initialState\<lparr>user := Some exampleUser\<rparr>) ''orders.void''
   \<and> \<not> hasPermission (initialState\<lparr>user := Some exampleUser\<rparr>) ''staff.hire''"
  using C9_hasPermission [of initialState "''menu.edit''" exampleUser]
    C9_hasPermission [of "initialState\<lparr>user := Some (exampleUser\<lparr>role := OWNER, permissions := None\<rparr>)\<rparr>"
        "''anything''" "exampleUser\<lparr>role := OWNER, permissions := None\<rparr>"]
    C9_hasPermission [of "initialState\<lparr>user := Some (exampleUser\<lparr>role := ADMIN, permissions := None\<rparr>)\<rparr>"
        "''anything''" "exampleUser\<lparr>role := ADMIN, permissions := None\<rparr>"]
    C9_hasPermission [of "initialState\<lparr>user := Some (exampleUser\<lparr>role := MANAGER, permissions := None\<rparr>)\<rparr>"
        "''anything''" "exampleUser\<lparr>role := MANAGER, permissions := None\<rparr>"]
    C9_hasPermission [of "initialState\<lparr>user := Some exampleUser\<rparr>" "''menu.edit''" exampleUser]
    C9_hasPermission [of "initialState\<lparr>user := Some exampleUser\<rparr>" "''orders.void''" exampleUser]
    C9_hasPermission [of "initialState\<lparr>user := Some exampleUser\<rparr>" "''staff.hire''" exampleUser]
  by (simp add: initialState_def exampleUser_def isOwnerOrManager_def)

text \<open>
  C10: whenever \<open>getStoredTokens\<close> returns a token record, its \<open>token_type\<close> is
  \<open>'bearer'\<close>, its \<open>expires_in\<close> is \<open>0\<close>, and its two token strings are the ones in
  storage. So after \<open>storeTokens(t0)\<close> (writes succeeding, two different keys, non-empty
  token strings) a read returns \<open>t0\<close> with \<open>token_type\<close> and \<open>expires_in\<close> replaced by
  these constants: only the two token strings come back.
\<close>

theorem C10_rehydrated_tokens:
  "(getStoredTokens cfg w = (Inr (Some t), w') \<longrightarrow>
      token_type t = ''bearer'' \<and> expires_in t = 0
      \<and> items w (TOKEN_STORAGE_KEY cfg) = Some (access_token t)
      \<and> items w (REFRESH_TOKEN_KEY cfg) = Some (refresh_token t))
   \<and> (hasWindow w \<and> \<not> tokenWriteFails cfg t0 w
        \<and> TOKEN_STORAGE_KEY cfg \<noteq> REFRESH_TOKEN_KEY cfg
        \<and> access_token t0 \<noteq> [] \<and> refresh_token t0 \<noteq> [] \<longrightarrow>
      fst (getStoredTokens cfg (snd (storeTokens cfg t0 w))) =
        Inr (Some (t0\<lparr>token_type := ''bearer'', expires_in := 0\<rparr>)))"
  using rehydrated_tokens_shape [of cfg w t w'] storeTokens_roundtrip [of w cfg t0]
  by blast

theorem C10_rehydrated_tokens_witness:
  "getStoredTokens AUTH_CONFIG_default sessionWorld =
     (Inr (Some \<lparr>access_token = ''acc'', refresh_token = ''ref'', token_type = ''bearer'',
                 expires_in = 0\<rparr>), sessionWorld)
   \<and> token_type exampleTokens = ''Bearer'' \<and> expires_in exampleTokens = 3600
   \<and> hasWindow mountWorld \<and> \<not> tokenWriteFails AUTH_CONFIG_default exampleTokens mountWorld
   \<and> fst (getStoredTokens AUTH_CONFIG_default
             (snd (storeTokens AUTH_CONFIG_default exampleTokens mountWorld))) =
       Inr (Some \<lparr>access_token = ''acc'', refresh_token = ''ref'', token_type = ''bearer'',
                  expires_in = 0\<rparr>)"
  using C10_rehydrated_tokens
      [of AUTH_CONFIG_default sessionWorld
          "\<lparr>access_token = ''acc'', refresh_token = ''ref'', token_type = ''bearer'',
            expires_in = 0\<rparr>"
          sessionWorld exampleTokens]
    C10_rehydrated_tokens
      [of AUTH_CONFIG_default mountWorld
          "\<lparr>access_token = ''acc'', refresh_token = ''ref'', token_type = ''bearer'',
            expires_in = 0\<rparr>"
          mountWorld exampleTokens]
  by (simp add: getStoredTokens_result tokenWriteFails_def sessionWorld_def mountWorld_def
      AUTH_CONFIG_default_def exampleTokens_def)

section \<open>The runtime of the auto-logout effect\<close>

lemma timerDelay_small: "delay < 2 ^ 31 \<Longrightarrow> timerDelay delay = delay"
  by (simp add: timerDelay_def)











































section \<open>Claim about session expiry\<close>




end
